theory Spec2Isabelle
  imports Main "HOL-Library.Word" "HOL-Library.Multiset"
begin

section \<open>Service addresses (dcy.go, lines 52-105)\<close>

text \<open>
  \<^verbatim>\<open>type Address struct { Address string; Port int }\<close> and
  \<^verbatim>\<open>type Addresses []Address\<close>. Only equality and decimal printing are applied to
  the port, so Go's \<open>int\<close> is an \<open>int\<close> here.
\<close>

record Address =
  Address :: string
  Port :: int

type_synonym Addresses = "Address list"

definition Address_Equal :: "Address \<Rightarrow> Address \<Rightarrow> bool" where
  "Address_Equal a a2 = (Address a = Address a2 \<and> Port a = Port a2)"

text \<open>
  \<open>Addresses.Equal\<close>: the inner loop looks for \<open>d\<close> in \<open>a2\<close> and breaks at the first
  hit, the outer loop returns false at the first \<open>d\<close> that was not found.
\<close>

fun Equal_found :: "Address \<Rightarrow> Addresses \<Rightarrow> bool" where
  "Equal_found d [] = False"
| "Equal_found d (d2 # a2) = (if Address_Equal d d2 then True else Equal_found d a2)"

fun Equal_loop :: "Addresses \<Rightarrow> Addresses \<Rightarrow> bool" where
  "Equal_loop [] a2 = True"
| "Equal_loop (d # a) a2 = (if \<not> Equal_found d a2 then False else Equal_loop a a2)"

definition Addresses_Equal :: "Addresses \<Rightarrow> Addresses \<Rightarrow> bool" where
  "Addresses_Equal a a2 = (if length a \<noteq> length a2 then False else Equal_loop a a2)"

fun Contains :: "Addresses \<Rightarrow> Address \<Rightarrow> bool" where
  "Contains [] a2 = False"
| "Contains (a1 # a) a2 = (if Address_Equal a1 a2 then True else Contains a a2)"

section \<open>Registry entries and the query adapter (dcy.go, lines 213-226 and 285-302)\<close>

text \<open>
  The types of the Consul client library are not part of the repository. Of
  \<^verbatim>\<open>api.ServiceEntry\<close> the code reads \<^verbatim>\<open>se.Node.Address\<close>, \<^verbatim>\<open>se.Service.Address\<close>,
  \<^verbatim>\<open>se.Service.Port\<close> and the \<^verbatim>\<open>Status\<close> of every element of \<^verbatim>\<open>se.Checks\<close>; of
  \<^verbatim>\<open>api.QueryMeta\<close> it reads \<^verbatim>\<open>LastIndex\<close> (a \<open>uint64\<close>); of \<^verbatim>\<open>api.QueryOptions\<close> it
  sets the five fields below (\<open>WaitTime\<close> in seconds).
\<close>

record ServiceEntry =
  Node_Address :: string
  Service_Address :: string
  Service_Port :: int
  Checks :: "string list"

record QueryMeta =
  LastIndex :: "64 word"

record QueryOptions =
  WaitIndex :: "64 word"
  WaitTime :: nat
  AllowStale :: bool
  RequireConsistent :: bool
  Datacenter :: string

text \<open>
  Errors are values. \<open>RegistryError\<close> is an error returned by the Consul client, with
  its message; \<open>ServiceNotFound name consulAddr\<close> is the error built in \<open>query\<close>;
  \<open>Panic\<close> is a Go run-time panic.
\<close>

datatype error =
  RegistryError string
| ServiceNotFound string string
| Panic string

text \<open>
  \<^verbatim>\<open>consul.Health().Service(service, tag, false, qo)\<close>: the registry is a function of
  the service name, the tag and the query options, as it answers at one moment: with
  the message of an error, or with the entries and the query metadata.
\<close>

type_synonym registry =
  "string \<Rightarrow> string \<Rightarrow> QueryOptions \<Rightarrow> string + (ServiceEntry list \<times> QueryMeta)"

definition queryTimeoutSeconds :: nat where "queryTimeoutSeconds = 30"
definition queryRetries :: int where "queryRetries = 10"
definition waitTimeMinutes :: nat where "waitTimeMinutes = 10"

text \<open>\<open>parseConsulServiceEntries\<close>: one address is appended for every entry.\<close>

fun parseConsulServiceEntries_loop :: "Addresses \<Rightarrow> ServiceEntry list \<Rightarrow> Addresses" where
  "parseConsulServiceEntries_loop srvs [] = srvs"
| "parseConsulServiceEntries_loop srvs (se # ses) =
     (let addr = Service_Address se;
          addr = (if addr = [] then Node_Address se else addr)
      in parseConsulServiceEntries_loop
           (srvs @ [\<lparr>Address = addr, Port = Service_Port se\<rparr>]) ses)"

definition parseConsulServiceEntries :: "ServiceEntry list \<Rightarrow> Addresses" where
  "parseConsulServiceEntries ses = parseConsulServiceEntries_loop [] ses"

text \<open>
  \<open>service\<close>: the inner loop over the checks of one entry leaves with
  \<^verbatim>\<open>continue loop\<close> at the first status that is neither "passing" nor "warning"
  (\<open>service_checks\<close> is false then); an entry whose checks all pass the test is
  appended to \<open>filteredSes\<close>.
\<close>

fun service_checks :: "string list \<Rightarrow> bool" where
  "service_checks [] = True"
| "service_checks (c # cs) =
     (if c \<noteq> ''passing'' \<and> c \<noteq> ''warning'' then False else service_checks cs)"

fun service_loop :: "ServiceEntry list \<Rightarrow> ServiceEntry list \<Rightarrow> ServiceEntry list" where
  "service_loop filteredSes [] = filteredSes"
| "service_loop filteredSes (se # ses) =
     (if service_checks (Checks se) then service_loop (filteredSes @ [se]) ses
      else service_loop filteredSes ses)"

definition service ::
  "registry \<Rightarrow> string \<Rightarrow> string \<Rightarrow> QueryOptions \<Rightarrow> error + (ServiceEntry list \<times> QueryMeta)"
where
  "service consul name tag qo =
     (case consul name tag qo of
        Inl err \<Rightarrow> Inl (RegistryError err)
      | Inr (ses, qm) \<Rightarrow> Inr (service_loop [] ses, qm))"

section \<open>Process state: cache, subscribers and observable effects\<close>

text \<open>
  A handler is a Go function value. \<open>Unsubscribe\<close> compares handlers by
  \<^verbatim>\<open>reflect.ValueOf(h).Pointer()\<close>, the code pointer of the function; \<open>closure\<close> stands
  for whatever else tells two function values apart. What a handler does when it is
  called is outside the package: a call is recorded as an event.
\<close>

datatype handler = Handler (Pointer: nat) (closure: nat)

datatype event =
  Lookup string string QueryOptions
| Sleep nat
| Called handler Addresses
| Go_monitor string string "64 word"

text \<open>
  The package-level variables \<open>cache\<close>, \<open>subscribers\<close>, \<open>domain\<close> and \<open>consulAddr\<close>,
  and the trace of effects: registry lookups issued, seconds slept, handler calls and
  watcher goroutines started, in the order they happen. \<open>updateCache\<close>,
  \<open>invalidateCache\<close>, \<open>Subscribe\<close> and \<open>Unsubscribe\<close> hold the lock \<open>l\<close> for the whole
  of their body, so each of them is one atomic state transformer. Every function is
  modelled as it runs when no other goroutine changes the state in between.
\<close>

record world =
  cache :: "string \<rightharpoonup> Addresses"
  subscribers :: "string \<rightharpoonup> handler list"
  domain :: string
  consulAddr :: string
  trace :: "event list"

definition emit :: "event \<Rightarrow> world \<Rightarrow> world" where
  "emit e w = w\<lparr>trace := trace w @ [e]\<rparr>"

definition cacheKey :: "string \<Rightarrow> string \<Rightarrow> string" where
  "cacheKey name dc = (if dc = [] then name else name @ ''-'' @ dc)"

fun notify_loop :: "handler list \<Rightarrow> Addresses \<Rightarrow> world \<Rightarrow> world" where
  "notify_loop [] srvs w = w"
| "notify_loop (h # s) srvs w = notify_loop s srvs (emit (Called h srvs) w)"

definition notify :: "string \<Rightarrow> Addresses \<Rightarrow> world \<Rightarrow> world" where
  "notify name srvs w =
     (case subscribers w name of
        Some s \<Rightarrow> notify_loop s srvs w
      | None \<Rightarrow> w)"

definition updateCache :: "string \<Rightarrow> string \<Rightarrow> Addresses \<Rightarrow> world \<Rightarrow> world" where
  "updateCache name dc srvs w =
     (let key = cacheKey name dc
      in case cache w key of
           Some srvs2 \<Rightarrow>
             if Addresses_Equal srvs2 srvs then w
             else notify name srvs (w\<lparr>cache := (cache w)(key \<mapsto> srvs)\<rparr>)
         | None \<Rightarrow> notify name srvs (w\<lparr>cache := (cache w)(key \<mapsto> srvs)\<rparr>))"

definition invalidateCache :: "string \<Rightarrow> string \<Rightarrow> world \<Rightarrow> world" where
  "invalidateCache name dc w = w\<lparr>cache := (cache w)(cacheKey name dc := None)\<rparr>"

subsection \<open>Subscriptions (dcy.go, lines 514-552)\<close>


text \<open>
  \<open>Unsubscribe\<close>: the loop cuts out the element at the first index whose code pointer
  is the one of the given handler and breaks; the list, changed or not, is stored.
\<close>

fun Unsubscribe_loop :: "handler list \<Rightarrow> handler \<Rightarrow> handler list" where
  "Unsubscribe_loop [] handler = []"
| "Unsubscribe_loop (h # a) handler =
     (if Pointer h = Pointer handler then a else h # Unsubscribe_loop a handler)"


subsection \<open>The watcher (dcy.go, lines 256-283)\<close>

text \<open>
  \<open>monitor\<close> loops until it gives up. The registry is given as the list of its
  successive states, one for each blocking lookup the loop issues; when the list is
  used up the watcher is blocked in its next lookup, with the wait index and the
  failure count it holds (\<open>Watching\<close>).
\<close>

datatype watcher = Watching "64 word" int | GivingUp

fun monitor_loop ::
  "string \<Rightarrow> string \<Rightarrow> registry list \<Rightarrow> 64 word \<Rightarrow> int \<Rightarrow> world \<Rightarrow> watcher \<times> world"
where
  "monitor_loop name dc [] wi tries w = (Watching wi tries, w)"
| "monitor_loop name dc (consul # rest) wi tries w =
     (let qo = \<lparr>WaitIndex = wi, WaitTime = 60 * waitTimeMinutes, AllowStale = True,
                RequireConsistent = False, Datacenter = dc\<rparr>;
          w = emit (Lookup name [] qo) w
      in case service consul name [] qo of
           Inl err \<Rightarrow>
             (let tries = tries + 1
              in if tries = queryRetries then (GivingUp, invalidateCache name dc w)
                 else monitor_loop name dc rest wi tries (emit (Sleep queryTimeoutSeconds) w))
         | Inr (ses, qm) \<Rightarrow>
             monitor_loop name dc rest (LastIndex qm) 0
               (updateCache name dc (parseConsulServiceEntries ses) w))"

definition monitor ::
  "string \<Rightarrow> string \<Rightarrow> 64 word \<Rightarrow> registry list \<Rightarrow> world \<Rightarrow> watcher \<times> world"
where
  "monitor name dc startIndex consuls w = monitor_loop name dc consuls startIndex 0 w"

subsection \<open>Resolution (dcy.go, lines 304-353)\<close>

text \<open>
  \<open>query\<close>: the immediate lookup sets only the datacenter in its options. The
  goroutine running \<open>monitor\<close> is recorded as started, with its start index.
\<close>

definition query :: "registry \<Rightarrow> string \<Rightarrow> string \<Rightarrow> world \<Rightarrow> (error + Addresses) \<times> world" where
  "query consul name dc w =
     (let qo = \<lparr>WaitIndex = 0, WaitTime = 0, AllowStale = False,
                RequireConsistent = False, Datacenter = dc\<rparr>;
          w = emit (Lookup name [] qo) w
      in case service consul name [] qo of
           Inl err \<Rightarrow> (Inl err, w)
         | Inr (ses, qm) \<Rightarrow>
             (let srvs = parseConsulServiceEntries ses
              in if length srvs = 0 then (Inl (ServiceNotFound name (consulAddr w)), w)
                 else (Inr srvs,
                       emit (Go_monitor name dc (LastIndex qm)) (updateCache name dc srvs w))))"

definition srv :: "registry \<Rightarrow> string \<Rightarrow> string \<Rightarrow> world \<Rightarrow> (error + Addresses) \<times> world" where
  "srv consul name dc w =
     (case cache w (cacheKey name dc) of
        Some srvs \<Rightarrow> if length srvs > 0 then (Inr srvs, w) else query consul name dc w
      | None \<Rightarrow> query consul name dc w)"

subsection \<open>Name parsing (dcy.go, lines 201-211)\<close>

text \<open>
  \<open>serviceName\<close> matches its input against the regular expression
  \<^verbatim>\<open>^(\S*)\.service\.*(\S*)*\.%s$\<close>, with the domain put in place of \<^verbatim>\<open>%s\<close>. The
  matcher below is a backtracking matcher for the operators this expression uses. It
  returns every way to match from a position, as the end position and the groups
  captured, in the order of preference of Go's \<open>regexp\<close> (leftmost, then first
  alternative first): a greedy star prefers one more iteration to leaving, and an
  iteration that consumes nothing is not repeated. Positions are byte offsets into
  the text; \<^verbatim>\<open>\S\<close> is every character but tab, newline, form feed, carriage return
  and space.
\<close>

datatype rx =
  Eps
| Bol
| Eol
| Chr char
| NonSpace
| Cat rx rx
| Star rx
| Group nat rx

type_synonym caps = "nat \<rightharpoonup> nat \<times> nat"

definition is_space :: "char \<Rightarrow> bool" where
  "is_space c = (c \<in> {CHR 0x09, CHR 0x0A, CHR 0x0C, CHR 0x0D, CHR '' ''})"

function matches :: "string \<Rightarrow> rx \<Rightarrow> nat \<Rightarrow> caps \<Rightarrow> (nat \<times> caps) list" where
  "matches t Eps p c = [(p, c)]"
| "matches t Bol p c = (if p = 0 then [(p, c)] else [])"
| "matches t Eol p c = (if p = length t then [(p, c)] else [])"
| "matches t (Chr x) p c = (if p < length t \<and> t ! p = x then [(p + 1, c)] else [])"
| "matches t NonSpace p c = (if p < length t \<and> \<not> is_space (t ! p) then [(p + 1, c)] else [])"
| "matches t (Cat a b) p c = concat (map (\<lambda>(q, c'). matches t b q c') (matches t a p c))"
| "matches t (Group n r) p c = map (\<lambda>(q, c'). (q, c'(n \<mapsto> (p, q)))) (matches t r p c)"
| "matches t (Star r) p c =
     concat (map (\<lambda>(q, c'). if p < q \<and> q \<le> length t then matches t (Star r) q c' else [])
                 (matches t r p c)) @ [(p, c)]"
  by pat_completeness auto
termination
  by (relation "measures [\<lambda>(t, r, p, c). size r, \<lambda>(t, r, p, c). length t - p]") auto

fun lit :: "string \<Rightarrow> rx" where
  "lit [] = Eps"
| "lit (x # xs) = Cat (Chr x) (lit xs)"

text \<open>
  \<open>FindStringSubmatch\<close>: the first match from the leftmost start position that has
  one; the result is empty (nil) when there is none, and otherwise holds the text of
  the whole match and of every group, empty for a group that took no part.
\<close>

definition FindSubmatchIndex :: "rx \<Rightarrow> string \<Rightarrow> caps option" where
  "FindSubmatchIndex r t =
     (case concat (map (\<lambda>i. map (\<lambda>(q, c). c(0 \<mapsto> (i, q))) (matches t r i Map.empty))
                       [0 ..< Suc (length t)]) of
        [] \<Rightarrow> None
      | c # _ \<Rightarrow> Some c)"

definition FindStringSubmatch :: "rx \<Rightarrow> nat \<Rightarrow> string \<Rightarrow> string list" where
  "FindStringSubmatch r n t =
     (case FindSubmatchIndex r t of
        None \<Rightarrow> []
      | Some c \<Rightarrow> map (\<lambda>g. case c g of None \<Rightarrow> [] | Some (i, j) \<Rightarrow> take (j - i) (drop i t))
                     [0 ..< Suc n])"

text \<open>
  The domain \<open>d\<close> is written into the expression as it is. The model covers a domain of
  ASCII characters none of which is a metacharacter of the expression language: the
  text written in then matches itself. For any other domain the expression means
  something else or does not compile, and \<open>serviceName\<close> is \<open>None\<close>.
\<close>

definition rx_meta :: "char \<Rightarrow> bool" where
  "rx_meta c = (c \<in> set ''.+*?()|[]{}^$'' \<or> c = CHR 0x5C)"

definition literal_domain :: "string \<Rightarrow> bool" where
  "literal_domain d = (\<forall>c \<in> set d. \<not> rx_meta c \<and> of_char c < (128 :: nat))"

definition serviceName_rx :: "string \<Rightarrow> rx" where
  "serviceName_rx d =
     Cat Bol (Cat (Group 1 (Star NonSpace)) (Cat (lit ''.service'') (Cat (Star (Chr CHR ''.''))
       (Cat (Star (Group 2 (Star NonSpace))) (Cat (Chr CHR ''.'') (Cat (lit d) Eol))))))"

definition serviceName :: "string \<Rightarrow> string \<Rightarrow> (string \<times> string) option" where
  "serviceName fqdn d =
     (if \<not> literal_domain d then None
      else let ms = FindStringSubmatch (serviceName_rx d) 2 fqdn
           in if length ms < 2 then Some (fqdn, [])
              else if length ms > 2 then Some (ms ! 1, ms ! 2)
              else Some (ms ! 1, []))"

text \<open>
  \<open>Services\<close> and \<open>Service\<close>. \<open>rand.Intn n\<close> panics when \<open>n\<close> is not positive and
  otherwise returns some number below \<open>n\<close>: \<open>r\<close> is the number the generator draws.
  Reading a slice outside its bounds panics.
\<close>

datatype failure = Failed error | DomainNotLiteral

definition Services :: "registry \<Rightarrow> string \<Rightarrow> world \<Rightarrow> (failure + Addresses) \<times> world" where
  "Services consul name w =
     (case serviceName name (domain w) of
        None \<Rightarrow> (Inl DomainNotLiteral, w)
      | Some (sn, dc) \<Rightarrow>
          (case srv consul sn dc w of
             (Inl err, w') \<Rightarrow> (Inl (Failed err), w')
           | (Inr srvs, w') \<Rightarrow> (Inr srvs, w')))"

definition rand_Intn :: "nat \<Rightarrow> int \<Rightarrow> error + nat" where
  "rand_Intn r n =
     (if n \<le> 0 then Inl (Panic ''invalid argument to Intn'') else Inr (r mod nat n))"

definition at_index :: "Addresses \<Rightarrow> nat \<Rightarrow> error + Address" where
  "at_index srvs i =
     (if i < length srvs then Inr (srvs ! i) else Inl (Panic ''index out of range''))"


subsection \<open>Rewriting a URL (dcy.go, lines 417-491)\<close>

text \<open>
  The functions of Go's standard library that \<open>URL\<close>, \<open>unpackURL\<close>, \<open>packURL\<close> and
  \<open>shouldDiscoverHost\<close> call are written out as far as these functions depend on them.
  \<open>strings.Contains\<close>, \<open>strings.Split\<close> and \<open>strings.Cut\<close> with a separator of one
  byte, and the positions of the first and of the last occurrence of a byte:
\<close>

fun strings_Contains :: "string \<Rightarrow> string \<Rightarrow> bool" where
  "strings_Contains [] sub = (sub = [])"
| "strings_Contains (x # xs) sub = (take (length sub) (x # xs) = sub \<or> strings_Contains xs sub)"

fun strings_Split :: "string \<Rightarrow> char \<Rightarrow> string list" where
  "strings_Split [] sep = [[]]"
| "strings_Split (x # xs) sep =
     (if x = sep then [] # strings_Split xs sep
      else (case strings_Split xs sep of [] \<Rightarrow> [[x]] | p # ps \<Rightarrow> (x # p) # ps))"

definition strings_Cut :: "string \<Rightarrow> char \<Rightarrow> string \<times> string" where
  "strings_Cut s sep =
     (if sep \<in> set s then (takeWhile (\<lambda>c. c \<noteq> sep) s, tl (dropWhile (\<lambda>c. c \<noteq> sep) s))
      else (s, []))"

definition IndexByte :: "string \<Rightarrow> char \<Rightarrow> nat option" where
  "IndexByte s c = (if c \<in> set s then Some (length (takeWhile (\<lambda>x. x \<noteq> c) s)) else None)"

definition LastIndexByte :: "string \<Rightarrow> char \<Rightarrow> nat option" where
  "LastIndexByte s c =
     (if c \<in> set s then Some (length s - Suc (length (takeWhile (\<lambda>x. x \<noteq> c) (rev s)))) else None)"

text \<open>
  \<open>net.SplitHostPort\<close>: the port starts after the last colon; a host in brackets must
  end just before that colon; any other colon or bracket is an error.
\<close>

definition SplitHostPort :: "string \<Rightarrow> string + (string \<times> string)" where
  "SplitHostPort hostport =
     (case LastIndexByte hostport CHR '':'' of
        None \<Rightarrow> Inl ''missing port in address''
      | Some i \<Rightarrow>
          if hostport ! 0 = CHR ''[''
          then (case IndexByte hostport CHR '']'' of
                  None \<Rightarrow> Inl ''missing ] in address''
                | Some e \<Rightarrow>
                    if e + 1 = length hostport then Inl ''missing port in address''
                    else if e + 1 = i
                    then (if CHR ''['' \<in> set (drop 1 hostport) then Inl ''unexpected [ in address''
                          else if CHR '']'' \<in> set (drop (e + 1) hostport)
                          then Inl ''unexpected ] in address''
                          else Inr (take (e - 1) (drop 1 hostport), drop (i + 1) hostport))
                    else if hostport ! (e + 1) = CHR '':'' then Inl ''too many colons in address''
                    else Inl ''missing port in address'')
          else if CHR '':'' \<in> set (take i hostport) then Inl ''too many colons in address''
          else if CHR ''['' \<in> set hostport then Inl ''unexpected [ in address''
          else if CHR '']'' \<in> set hostport then Inl ''unexpected ] in address''
          else Inr (take i hostport, drop (i + 1) hostport))"

text \<open>
  \<open>url.Parse\<close>, with the fields of \<open>url.URL\<close> it sets for the texts covered here. The
  model covers a text of letters, digits and the characters \<^verbatim>\<open>-_.~/:?=&%\<close>, whose
  authority holds letters, digits, dots, hyphens and colons only (no user
  information, no bracketed address, no escapes): the result is \<open>None\<close> for every
  other text. Within these texts it follows the library step by step: the scheme is
  cut off and put in lower case, the query is cut off at the first question mark, a
  text with a scheme and no leading slash is opaque, the authority runs from the two
  slashes to the next slash and its port, if any, must be digits, and the path has
  its percent escapes decoded.
\<close>

definition is_alpha :: "char \<Rightarrow> bool" where
  "is_alpha c = (let n = (of_char c :: nat) in (97 \<le> n \<and> n \<le> 122) \<or> (65 \<le> n \<and> n \<le> 90))"

definition is_digit :: "char \<Rightarrow> bool" where
  "is_digit c = (let n = (of_char c :: nat) in 48 \<le> n \<and> n \<le> 57)"

definition unreserved :: "char \<Rightarrow> bool" where
  "unreserved c = (is_alpha c \<or> is_digit c \<or> c \<in> set ''-_.~'')"

definition ishex :: "char \<Rightarrow> bool" where
  "ishex c = (let n = (of_char c :: nat) in
     (48 \<le> n \<and> n \<le> 57) \<or> (97 \<le> n \<and> n \<le> 102) \<or> (65 \<le> n \<and> n \<le> 70))"

definition unhex :: "char \<Rightarrow> nat" where
  "unhex c = (let n = (of_char c :: nat) in
     if 48 \<le> n \<and> n \<le> 57 then n - 48
     else if 97 \<le> n \<and> n \<le> 102 then n - 97 + 10
     else if 65 \<le> n \<and> n \<le> 70 then n - 65 + 10
     else 0)"

definition ToLower :: "string \<Rightarrow> string" where
  "ToLower s = map (\<lambda>c. let n = (of_char c :: nat) in
                          if 65 \<le> n \<and> n \<le> 90 then char_of (n + 32) else c) s"

record url_URL =
  Scheme :: string
  Opaque :: string
  Host :: string
  Path :: string
  RawQuery :: string

fun getScheme_loop :: "string \<Rightarrow> nat \<Rightarrow> string \<Rightarrow> string + (string \<times> string)" where
  "getScheme_loop rawURL i [] = Inr ([], rawURL)"
| "getScheme_loop rawURL i (c # cs) =
     (if is_alpha c then getScheme_loop rawURL (i + 1) cs
      else if is_digit c \<or> c = CHR ''+'' \<or> c = CHR ''-'' \<or> c = CHR ''.''
      then (if i = 0 then Inr ([], rawURL) else getScheme_loop rawURL (i + 1) cs)
      else if c = CHR '':''
      then (if i = 0 then Inl ''missing protocol scheme''
            else Inr (take i rawURL, drop (i + 1) rawURL))
      else Inr ([], rawURL))"

definition getScheme :: "string \<Rightarrow> string + (string \<times> string)" where
  "getScheme rawURL = getScheme_loop rawURL 0 rawURL"

fun unescape :: "string \<Rightarrow> string + string" where
  "unescape [] = Inr []"
| "unescape (c # cs) =
     (if c = CHR ''%''
      then (case cs of
              a # b # r \<Rightarrow>
                if ishex a \<and> ishex b
                then (case unescape r of
                        Inl err \<Rightarrow> Inl err
                      | Inr s \<Rightarrow> Inr (char_of (unhex a * 16 + unhex b) # s))
                else Inl ''invalid URL escape''
            | _ \<Rightarrow> Inl ''invalid URL escape'')
      else (case unescape cs of Inl err \<Rightarrow> Inl err | Inr s \<Rightarrow> Inr (c # s)))"

definition validOptionalPort :: "string \<Rightarrow> bool" where
  "validOptionalPort port =
     (case port of
        [] \<Rightarrow> True
      | c # cs \<Rightarrow> c = CHR '':'' \<and> list_all is_digit cs)"

definition parseHost :: "string \<Rightarrow> (string + string) option" where
  "parseHost host =
     (if \<not> list_all (\<lambda>c. is_alpha c \<or> is_digit c \<or> c = CHR ''-'' \<or> c = CHR ''.'' \<or> c = CHR '':'') host
      then None
      else (case LastIndexByte host CHR '':'' of
              None \<Rightarrow> Some (Inr host)
            | Some i \<Rightarrow>
                if \<not> validOptionalPort (drop i host) then Some (Inl ''invalid port after host'')
                else Some (Inr host)))"

definition url_char :: "char \<Rightarrow> bool" where
  "url_char c = (unreserved c \<or> c \<in> set ''/:?=&%'')"

definition HasPrefix :: "string \<Rightarrow> string \<Rightarrow> bool" where
  "HasPrefix s p = (take (length p) s = p)"

definition url_parse_rest :: "string \<Rightarrow> string \<Rightarrow> string \<Rightarrow> (string + url_URL) option" where
  "url_parse_rest scheme rest rawQuery =
     (if (scheme \<noteq> [] \<or> \<not> HasPrefix rest ''///'') \<and> HasPrefix rest ''//''
      then (let authority = drop 2 rest;
                (authority, rest) =
                  (case IndexByte authority CHR ''/'' of
                     None \<Rightarrow> (authority, [])
                   | Some i \<Rightarrow> (take i authority, drop i authority))
            in case parseHost authority of
                 None \<Rightarrow> None
               | Some (Inl err) \<Rightarrow> Some (Inl err)
               | Some (Inr host) \<Rightarrow>
                   (case unescape rest of
                      Inl err \<Rightarrow> Some (Inl err)
                    | Inr path \<Rightarrow>
                        Some (Inr \<lparr>Scheme = scheme, Opaque = [], Host = host, Path = path,
                                   RawQuery = rawQuery\<rparr>)))
      else (case unescape rest of
              Inl err \<Rightarrow> Some (Inl err)
            | Inr path \<Rightarrow>
                Some (Inr \<lparr>Scheme = scheme, Opaque = [], Host = [], Path = path,
                           RawQuery = rawQuery\<rparr>)))"

definition url_Parse :: "string \<Rightarrow> (string + url_URL) option" where
  "url_Parse rawURL =
     (if \<not> list_all url_char rawURL then None
      else if rawURL = ''*''
      then Some (Inr \<lparr>Scheme = [], Opaque = [], Host = [], Path = ''*'', RawQuery = []\<rparr>)
      else (case getScheme rawURL of
              Inl err \<Rightarrow> Some (Inl err)
            | Inr (scheme, rest) \<Rightarrow>
                (let scheme = ToLower scheme;
                     (rest, rawQuery) =
                       (if rest \<noteq> [] \<and> last rest = CHR ''?'' \<and> count_list rest CHR ''?'' = 1
                        then (butlast rest, [])
                        else strings_Cut rest CHR ''?'')
                 in if \<not> HasPrefix rest ''/''
                    then (if scheme \<noteq> []
                          then Some (Inr \<lparr>Scheme = scheme, Opaque = rest, Host = [], Path = [],
                                          RawQuery = rawQuery\<rparr>)
                          else if CHR '':'' \<in> set (fst (strings_Cut rest CHR ''/''))
                          then Some (Inl ''first path segment in URL cannot contain colon'')
                          else url_parse_rest scheme rest rawQuery)
                    else url_parse_rest scheme rest rawQuery)))"

text \<open>
  \<open>URL.Query\<close> parses the raw query into \<open>url.Values\<close>, here the list of the keys in
  the order of their first occurrence, each with its values: the pieces between
  ampersands are cut at the first equals sign and unescaped; an empty piece and a
  piece with a malformed escape are dropped. \<open>Values.Encode\<close> writes the pairs sorted
  by key (bytewise), key and value escaped by \<open>QueryEscape\<close>.
\<close>

type_synonym Values = "(string \<times> string list) list"

definition Values_add :: "Values \<Rightarrow> string \<Rightarrow> string \<Rightarrow> Values" where
  "Values_add m k v =
     (case map_of m k of
        None \<Rightarrow> m @ [(k, [v])]
      | Some vs \<Rightarrow> map (\<lambda>(k', vs'). if k' = k then (k', vs' @ [v]) else (k', vs')) m)"

fun parseQuery :: "Values \<Rightarrow> string list \<Rightarrow> Values" where
  "parseQuery m [] = m"
| "parseQuery m (key # rest) =
     (if key = [] then parseQuery m rest
      else (let (k, v) = strings_Cut key CHR ''=''
            in case unescape k of
                 Inl err \<Rightarrow> parseQuery m rest
               | Inr k1 \<Rightarrow>
                   (case unescape v of
                      Inl err \<Rightarrow> parseQuery m rest
                    | Inr v1 \<Rightarrow> parseQuery (Values_add m k1 v1) rest)))"

definition Query :: "url_URL \<Rightarrow> Values" where
  "Query u = parseQuery [] (strings_Split (RawQuery u) CHR ''&'')"

definition upperhex :: "nat \<Rightarrow> char" where
  "upperhex n = ''0123456789ABCDEF'' ! n"

definition QueryEscape :: "string \<Rightarrow> string" where
  "QueryEscape s =
     concat (map (\<lambda>c. if unreserved c then [c]
                       else if c = CHR '' '' then ''+''
                       else [CHR ''%'', upperhex (of_char c div 16), upperhex (of_char c mod 16)]) s)"

fun string_le :: "string \<Rightarrow> string \<Rightarrow> bool" where
  "string_le [] ys = True"
| "string_le (x # xs) [] = False"
| "string_le (x # xs) (y # ys) =
     ((of_char x :: nat) < of_char y \<or> (x = y \<and> string_le xs ys))"

fun sort_insert :: "string \<Rightarrow> string list \<Rightarrow> string list" where
  "sort_insert k [] = [k]"
| "sort_insert k (x # xs) = (if string_le k x then k # x # xs else x # sort_insert k xs)"

definition sort_Strings :: "string list \<Rightarrow> string list" where
  "sort_Strings ks = foldr sort_insert ks []"

fun join_amp :: "string list \<Rightarrow> string" where
  "join_amp [] = []"
| "join_amp [x] = x"
| "join_amp (x # y # ys) = x @ ''&'' @ join_amp (y # ys)"

definition Encode :: "Values \<Rightarrow> string" where
  "Encode v =
     join_amp (concat (map (\<lambda>k. map (\<lambda>x. QueryEscape k @ ''='' @ QueryEscape x)
                                     (case map_of v k of None \<Rightarrow> [] | Some vs \<Rightarrow> vs))
                           (sort_Strings (map fst v))))"

text \<open>
  \<open>Address.String\<close> prints host, a colon and the port in decimal.
\<close>

function show_nat :: "nat \<Rightarrow> string" where
  "show_nat n = (if n < 10 then [char_of (48 + n)]
                 else show_nat (n div 10) @ [char_of (48 + n mod 10)])"
  by pat_completeness auto
termination
  by (relation "measure id") auto

declare show_nat.simps [simp del]

definition show_int :: "int \<Rightarrow> string" where
  "show_int i = (if i < 0 then ''-'' @ show_nat (nat (- i)) else show_nat (nat i))"

definition Address_String :: "Address \<Rightarrow> string" where
  "Address_String a = Address a @ '':'' @ show_int (Port a)"

text \<open>
  The functions of the package. \<open>unpackURL\<close> returns its five named results, all empty
  when \<open>url.Parse\<close> fails. \<open>URL\<close> is \<open>None\<close> where the model of \<open>url.Parse\<close> or of
  \<open>serviceName\<close> says nothing.
\<close>

definition shouldDiscoverHost :: "string \<Rightarrow> world \<Rightarrow> bool" where
  "shouldDiscoverHost name w =
     (let parts = strings_Split name CHR ''.''
      in if length parts = 1 then (if parts ! 0 = ''localhost'' then False else True)
         else parts ! (length parts - 1) = domain w)"

definition unpackURL :: "string \<Rightarrow> (string \<times> string \<times> string \<times> string \<times> Values) option" where
  "unpackURL s =
     (if strings_Contains s ''//''
      then (case url_Parse s of
              None \<Rightarrow> None
            | Some (Inl err) \<Rightarrow> Some ([], [], [], [], [])
            | Some (Inr u) \<Rightarrow>
                (case SplitHostPort (Host u) of
                   Inl err \<Rightarrow> Some (Scheme u, Host u, [], Path u, Query u)
                 | Inr (h, p) \<Rightarrow> Some (Scheme u, h, p, Path u, Query u)))
      else (case SplitHostPort s of
              Inl err \<Rightarrow> Some ([], s, [], [], [])
            | Inr (h, p) \<Rightarrow> Some ([], h, p, [], [])))"

definition packURL :: "string \<Rightarrow> string \<Rightarrow> string \<Rightarrow> string \<Rightarrow> Values \<Rightarrow> string" where
  "packURL scheme host port path vals =
     (let url = (if scheme \<noteq> [] then scheme @ ''://'' else []);
          url = url @ host;
          url = (if port \<noteq> [] then url @ '':'' @ port else url);
          url = url @ path;
          url = (if length vals > 0 then url @ ''?'' @ Encode vals else url)
      in url)"

definition URL :: "registry \<Rightarrow> string \<Rightarrow> nat \<Rightarrow> world \<Rightarrow> ((error + string) \<times> world) option" where
  "URL consul url r w =
     (case unpackURL url of
        None \<Rightarrow> None
      | Some (scheme, host, port, path, vals) \<Rightarrow>
          if \<not> shouldDiscoverHost host w then Some (Inr url, w)
          else (case Services consul host w of
                  (Inl DomainNotLiteral, w') \<Rightarrow> None
                | (Inl (Failed err), w') \<Rightarrow> Some (Inr url, w')
                | (Inr srvs, w') \<Rightarrow>
                    if length srvs = 0 then Some (Inr url, w')
                    else (case rand_Intn r (int (length srvs)) of
                            Inl p \<Rightarrow> Some (Inl p, w')
                          | Inr i \<Rightarrow>
                              (case at_index srvs i of
                                 Inl p \<Rightarrow> Some (Inl p, w')
                               | Inr a \<Rightarrow>
                                   Some (Inr (packURL scheme (Address_String a) [] path vals),
                                         w')))))"

section \<open>Vocabulary of the statements\<close>

text \<open>
  The handlers registered under a name (none when the key is missing), the options of
  the immediate and of the blocking lookup as \<open>query\<close> and \<open>monitor\<close> build them, and the
  two notions of the query adapter: an entry is healthy when each of its checks is
  "passing" or "warning", and its endpoint is the service address, or the node's
  address when the service address is empty, with the service port.
\<close>

definition registered :: "world \<Rightarrow> string \<Rightarrow> handler list" where
  "registered w name = (case subscribers w name of None \<Rightarrow> [] | Some a \<Rightarrow> a)"

definition immediate :: "string \<Rightarrow> QueryOptions" where
  "immediate dc = \<lparr>WaitIndex = 0, WaitTime = 0, AllowStale = False,
                    RequireConsistent = False, Datacenter = dc\<rparr>"

definition blocking :: "64 word \<Rightarrow> string \<Rightarrow> QueryOptions" where
  "blocking wi dc = \<lparr>WaitIndex = wi, WaitTime = 600, AllowStale = True,
                      RequireConsistent = False, Datacenter = dc\<rparr>"

definition healthy :: "ServiceEntry \<Rightarrow> bool" where
  "healthy se = (\<forall>c \<in> set (Checks se). c = ''passing'' \<or> c = ''warning'')"

definition endpoint :: "ServiceEntry \<Rightarrow> Address" where
  "endpoint se = \<lparr>Address = (if Service_Address se \<noteq> [] then Service_Address se
                              else Node_Address se),
                  Port = Service_Port se\<rparr>"

text \<open>
  For the expression of \<open>serviceName\<close>: \<open>span P t p\<close> is the length of the longest run
  of characters with \<open>P\<close> that starts at position \<open>p\<close> of \<open>t\<close>, and the expression is
  cut into the parts that follow the first group: the literal \<^verbatim>\<open>\.service\<close>, the dots,
  the repeated second group and the literal dot with the domain at the end of the text.
\<close>

definition span :: "(char \<Rightarrow> bool) \<Rightarrow> string \<Rightarrow> nat \<Rightarrow> nat" where
  "span P t p = length (takeWhile P (drop p t))"








subsection \<open>Concrete inputs\<close>

definition ep1 :: Address where "ep1 = \<lparr>Address = ''10.0.0.1'', Port = 80\<rparr>"
definition ep2 :: Address where "ep2 = \<lparr>Address = ''10.0.0.2'', Port = 80\<rparr>"

definition se1 :: ServiceEntry where
  "se1 = \<lparr>Node_Address = ''10.0.0.1'', Service_Address = [], Service_Port = 80,
          Checks = [''passing'']\<rparr>"
definition se2 :: ServiceEntry where
  "se2 = \<lparr>Node_Address = ''10.0.0.9'', Service_Address = ''10.0.0.2'', Service_Port = 80,
          Checks = [''passing'', ''warning'']\<rparr>"
definition se3 :: ServiceEntry where
  "se3 = \<lparr>Node_Address = ''10.0.0.3'', Service_Address = [], Service_Port = 80,
          Checks = [''passing'', ''critical'']\<rparr>"

definition consul_up :: registry where
  "consul_up = (\<lambda>name tag qo. Inr ([se1, se2, se3], \<lparr>LastIndex = 6\<rparr>))"
definition consul_down :: registry where
  "consul_down = (\<lambda>name tag qo. Inl ''connection refused'')"
definition consul_unhealthy :: registry where
  "consul_unhealthy = (\<lambda>name tag qo. Inr ([se3], \<lparr>LastIndex = 7\<rparr>))"

definition h1 :: handler where "h1 = Handler 1 0"
definition h2 :: handler where "h2 = Handler 2 0"

definition world0 :: world where
  "world0 = \<lparr>cache = [''svc'' \<mapsto> [ep1]], subscribers = [''svc'' \<mapsto> [h1, h2]],
             domain = ''sd'', consulAddr = ''127.0.0.1:8500'', trace = []\<rparr>"

lemmas ex_defs = ep1_def ep2_def se1_def se2_def se3_def consul_up_def consul_down_def
  consul_unhealthy_def h1_def h2_def world0_def

section \<open>Properties of address comparison\<close>

lemma Address_Equal_iff: "Address_Equal a a2 \<longleftrightarrow> a = a2"
  by (cases a, cases a2) (simp add: Address_Equal_def)

lemma Equal_found_iff: "Equal_found d a2 \<longleftrightarrow> d \<in> set a2"
  by (induction a2) (auto simp: Address_Equal_iff)

lemma Equal_loop_iff: "Equal_loop a a2 \<longleftrightarrow> set a \<subseteq> set a2"
  by (induction a) (auto simp: Equal_found_iff)

lemma Addresses_Equal_iff:
  "Addresses_Equal a a2 \<longleftrightarrow> length a = length a2 \<and> set a \<subseteq> set a2"
  by (simp add: Addresses_Equal_def Equal_loop_iff)

lemma Addresses_Equal_refl: "Addresses_Equal a a"
  by (simp add: Addresses_Equal_iff)

lemma distinct_subset_same_length:
  assumes "distinct a" and "length a = length a2" and "set a \<subseteq> set a2"
  shows "set a = set a2"
proof -
  have "card (set a2) \<le> length a2" by (rule card_length)
  also have "\<dots> = card (set a)" using assms(1,2) by (simp add: distinct_card)
  finally have "card (set a2) \<le> card (set a)" .
  with assms(3) show ?thesis by (simp add: card_seteq)
qed

text \<open>
  Claim C3, as the code has it. \<open>Addresses.Equal\<close> holds exactly when the two slices
  have the same length and every element of the receiver occurs in the argument. It
  holds for every reordering of one collection, and between two duplicate-free
  collections it is equality of their element sets.
\<close>

theorem C3_Addresses_Equal:
  "(Addresses_Equal A B \<longleftrightarrow> length A = length B \<and> (\<forall>d \<in> set A. d \<in> set B))
   \<and> (mset A = mset B \<longrightarrow> Addresses_Equal A B)
   \<and> (distinct A \<and> distinct B \<longrightarrow> (Addresses_Equal A B \<longleftrightarrow> set A = set B))"
proof (intro conjI impI)
  show "Addresses_Equal A B \<longleftrightarrow> length A = length B \<and> (\<forall>d \<in> set A. d \<in> set B)"
    by (auto simp: Addresses_Equal_iff)
next
  assume "mset A = mset B"
  then have "length A = length B" and "set A = set B"
    by (auto dest: mset_eq_length mset_eq_setD)
  then show "Addresses_Equal A B" by (simp add: Addresses_Equal_iff)
next
  assume d: "distinct A \<and> distinct B"
  show "Addresses_Equal A B \<longleftrightarrow> set A = set B"
  proof
    assume "Addresses_Equal A B"
    then have "length A = length B" and "set A \<subseteq> set B"
      by (simp_all add: Addresses_Equal_iff)
    with d show "set A = set B"
      by (intro distinct_subset_same_length) simp_all
  next
    assume "set A = set B"
    with d have "length A = length B"
      using distinct_card [of A] distinct_card [of B] by simp
    with \<open>set A = set B\<close> show "Addresses_Equal A B" by (simp add: Addresses_Equal_iff)
  qed
qed

theorem C3_Addresses_Equal_witness:
  "Addresses_Equal
     [\<lparr>Address = ''10.0.0.1'', Port = 80\<rparr>, \<lparr>Address = ''10.0.0.2'', Port = 80\<rparr>]
     [\<lparr>Address = ''10.0.0.2'', Port = 80\<rparr>, \<lparr>Address = ''10.0.0.1'', Port = 80\<rparr>]
   \<and> mset [\<lparr>Address = ''10.0.0.1'', Port = 80\<rparr>, \<lparr>Address = ''10.0.0.2'', Port = 80\<rparr>]
     = mset [\<lparr>Address = ''10.0.0.2'', Port = 80\<rparr>, \<lparr>Address = ''10.0.0.1'', Port = 80\<rparr>]
   \<and> distinct [\<lparr>Address = ''10.0.0.1'', Port = 80\<rparr>, \<lparr>Address = ''10.0.0.2'', Port = (80::int)\<rparr>]
   \<and> distinct [\<lparr>Address = ''10.0.0.2'', Port = 80\<rparr>, \<lparr>Address = ''10.0.0.1'', Port = (80::int)\<rparr>]
   \<and> set [\<lparr>Address = ''10.0.0.1'', Port = 80\<rparr>, \<lparr>Address = ''10.0.0.2'', Port = 80\<rparr>]
     = set [\<lparr>Address = ''10.0.0.2'', Port = 80\<rparr>, \<lparr>Address = ''10.0.0.1'', Port = (80::int)\<rparr>]"
  using C3_Addresses_Equal
    [of "[\<lparr>Address = ''10.0.0.1'', Port = 80\<rparr>, \<lparr>Address = ''10.0.0.2'', Port = 80\<rparr>]"
        "[\<lparr>Address = ''10.0.0.2'', Port = 80\<rparr>, \<lparr>Address = ''10.0.0.1'', Port = 80\<rparr>]"]
  by auto

text \<open>
  Claim C3, as the specification states it, fails on slices with repeated elements:
  a slice holding one endpoint twice has the same element set as the slice holding it
  once, and the comparison is false; and the comparison is true between \<open>[x, x]\<close> and
  \<open>[x, y]\<close>, whose element sets differ.
\<close>

theorem C3_set_equality_counterexample:
  "set [\<lparr>Address = ''10.0.0.1'', Port = 80\<rparr>, \<lparr>Address = ''10.0.0.1'', Port = 80\<rparr>]
     = set [\<lparr>Address = ''10.0.0.1'', Port = (80::int)\<rparr>]
   \<and> \<not> Addresses_Equal
        [\<lparr>Address = ''10.0.0.1'', Port = 80\<rparr>, \<lparr>Address = ''10.0.0.1'', Port = 80\<rparr>]
        [\<lparr>Address = ''10.0.0.1'', Port = 80\<rparr>]
   \<and> Addresses_Equal
        [\<lparr>Address = ''10.0.0.1'', Port = 80\<rparr>, \<lparr>Address = ''10.0.0.1'', Port = 80\<rparr>]
        [\<lparr>Address = ''10.0.0.1'', Port = 80\<rparr>, \<lparr>Address = ''10.0.0.2'', Port = 80\<rparr>]
   \<and> set [\<lparr>Address = ''10.0.0.1'', Port = 80\<rparr>, \<lparr>Address = ''10.0.0.1'', Port = 80\<rparr>]
     \<noteq> set [\<lparr>Address = ''10.0.0.1'', Port = 80\<rparr>, \<lparr>Address = ''10.0.0.2'', Port = (80::int)\<rparr>]"
  by (simp add: Addresses_Equal_def Address_Equal_def)

section \<open>The query adapter\<close>

lemma service_checks_iff:
  "service_checks cs \<longleftrightarrow> (\<forall>c \<in> set cs. c = ''passing'' \<or> c = ''warning'')"
  by (induction cs) auto

lemma service_loop_filter:
  "service_loop acc ses = acc @ filter (\<lambda>se. service_checks (Checks se)) ses"
  by (induction ses arbitrary: acc) auto

lemma parseConsulServiceEntries_loop_map:
  "parseConsulServiceEntries_loop srvs ses =
     srvs @ map (\<lambda>se. \<lparr>Address = (if Service_Address se = [] then Node_Address se
                                     else Service_Address se),
                        Port = Service_Port se\<rparr>) ses"
  by (induction ses arbitrary: srvs) (auto simp: Let_def)

lemma service_eq:
  "service consul name tag qo =
     (case consul name tag qo of
        Inl err \<Rightarrow> Inl (RegistryError err)
      | Inr (ses, qm) \<Rightarrow> Inr (filter healthy ses, qm))"
proof -
  have "(\<lambda>se. service_checks (Checks se)) = healthy"
    by (simp add: fun_eq_iff healthy_def service_checks_iff)
  then show ?thesis
    by (simp add: service_def service_loop_filter split: sum.splits)
qed

lemma parseConsulServiceEntries_eq: "parseConsulServiceEntries ses = map endpoint ses"
proof -
  have "(\<lambda>se. \<lparr>Address = (if Service_Address se = [] then Node_Address se
                             else Service_Address se), Port = Service_Port se\<rparr>) = endpoint"
    by (simp add: fun_eq_iff endpoint_def)
  then show ?thesis
    by (simp add: parseConsulServiceEntries_def parseConsulServiceEntries_loop_map)
qed

text \<open>
  Claim C6. Of the raw entries the registry returns, \<open>service\<close> keeps exactly those all
  of whose health checks have status "passing" or "warning", in their order, and
  \<open>parseConsulServiceEntries\<close> maps each entry it is given to one address: the
  service address when that is not empty, the node's address otherwise, with the
  service port.
\<close>

theorem C6_query_adapter:
  "service consul name tag qo =
     (case consul name tag qo of
        Inl err \<Rightarrow> Inl (RegistryError err)
      | Inr (ses, qm) \<Rightarrow>
          Inr (filter (\<lambda>se. \<forall>c \<in> set (Checks se). c = ''passing'' \<or> c = ''warning'') ses, qm))
   \<and> parseConsulServiceEntries ses =
       map (\<lambda>se. \<lparr>Address = (if Service_Address se \<noteq> [] then Service_Address se
                                else Node_Address se),
                   Port = Service_Port se\<rparr>) ses"
proof
  have h: "(\<lambda>se. \<forall>c \<in> set (Checks se). c = ''passing'' \<or> c = ''warning'') = healthy"
    by (simp add: fun_eq_iff healthy_def)
  show "service consul name tag qo =
     (case consul name tag qo of
        Inl err \<Rightarrow> Inl (RegistryError err)
      | Inr (ses, qm) \<Rightarrow>
          Inr (filter (\<lambda>se. \<forall>c \<in> set (Checks se). c = ''passing'' \<or> c = ''warning'') ses, qm))"
    unfolding h by (rule service_eq)
  have e: "(\<lambda>se. \<lparr>Address = (if Service_Address se \<noteq> [] then Service_Address se
                                else Node_Address se), Port = Service_Port se\<rparr>) = endpoint"
    by (simp add: fun_eq_iff endpoint_def)
  show "parseConsulServiceEntries ses =
       map (\<lambda>se. \<lparr>Address = (if Service_Address se \<noteq> [] then Service_Address se
                                else Node_Address se),
                   Port = Service_Port se\<rparr>) ses"
    unfolding e by (rule parseConsulServiceEntries_eq)
qed

theorem C6_query_adapter_witness:
  "service consul_up ''svc'' [] (immediate []) = Inr ([se1, se2], \<lparr>LastIndex = 6\<rparr>)
   \<and> parseConsulServiceEntries [se1, se2] = [ep1, ep2]"
  using C6_query_adapter [of consul_up "''svc''" "[]" "immediate []" "[se1, se2]"]
  by (simp add: ex_defs)

section \<open>Cache update and notification\<close>

lemma notify_loop_eq:
  "notify_loop s srvs w = w\<lparr>trace := trace w @ map (\<lambda>h. Called h srvs) s\<rparr>"
  by (induction s arbitrary: w) (simp_all add: emit_def)

lemma notify_eq:
  "notify name srvs w = w\<lparr>trace := trace w @ map (\<lambda>h. Called h srvs) (registered w name)\<rparr>"
  by (simp add: notify_def registered_def notify_loop_eq split: option.splits)

lemma updateCache_eq:
  "updateCache name dc S w =
     (if \<exists>old. cache w (cacheKey name dc) = Some old \<and> Addresses_Equal old S then w
      else w\<lparr>cache := (cache w)(cacheKey name dc \<mapsto> S),
              trace := trace w @ map (\<lambda>h. Called h S) (registered w name)\<rparr>)"
  by (auto simp: updateCache_def Let_def notify_eq registered_def split: option.splits)

lemma updateCache_twice:
  "updateCache name dc S (updateCache name dc S w) = updateCache name dc S w"
  by (simp add: updateCache_eq Addresses_Equal_refl)

lemma cache_updateCache_Nil: "cache (updateCache name dc [] w) (cacheKey name dc) = Some []"
  by (auto simp: updateCache_eq Addresses_Equal_iff)

text \<open>
  Claim C2, as the code has it. \<open>updateCache\<close> changes nothing when the key holds an
  entry of the same length as \<open>S\<close> all of whose elements occur in \<open>S\<close> (the comparison
  \<open>Addresses.Equal\<close>). Otherwise it stores \<open>S\<close> under the key and calls every handler
  registered under the bare service name once with \<open>S\<close>, in the order of registration.
  A second update with the same \<open>S\<close> right after the first changes nothing, so the two
  updates call the handlers as often as the first alone.
\<close>

theorem C2_updateCache:
  "updateCache name dc S w =
     (if \<exists>old. cache w (cacheKey name dc) = Some old
               \<and> length old = length S \<and> (\<forall>d \<in> set old. d \<in> set S)
      then w
      else w\<lparr>cache := (cache w)(cacheKey name dc \<mapsto> S),
              trace := trace w @ map (\<lambda>h. Called h S) (registered w name)\<rparr>)
   \<and> updateCache name dc S (updateCache name dc S w) = updateCache name dc S w"
proof -
  have "Addresses_Equal old S \<longleftrightarrow> length old = length S \<and> (\<forall>d \<in> set old. d \<in> set S)"
    for old
    by (auto simp: Addresses_Equal_iff)
  then have "updateCache name dc S w =
     (if \<exists>old. cache w (cacheKey name dc) = Some old
               \<and> length old = length S \<and> (\<forall>d \<in> set old. d \<in> set S)
      then w
      else w\<lparr>cache := (cache w)(cacheKey name dc \<mapsto> S),
              trace := trace w @ map (\<lambda>h. Called h S) (registered w name)\<rparr>)"
    by (simp add: updateCache_eq [of name dc S w])
  then show ?thesis
    using updateCache_twice [of name dc S w] by (rule conjI)
qed

theorem C2_updateCache_witness:
  "updateCache ''svc'' [] [ep1, ep2] world0 =
     world0\<lparr>cache := (cache world0)(''svc'' \<mapsto> [ep1, ep2]),
            trace := [Called h1 [ep1, ep2], Called h2 [ep1, ep2]]\<rparr>
   \<and> updateCache ''svc'' [] [ep1, ep2] (updateCache ''svc'' [] [ep1, ep2] world0)
     = updateCache ''svc'' [] [ep1, ep2] world0
   \<and> updateCache ''svc'' [] [ep1] world0 = world0"
proof (intro conjI)
  show "updateCache ''svc'' [] [ep1, ep2] world0 =
     world0\<lparr>cache := (cache world0)(''svc'' \<mapsto> [ep1, ep2]),
            trace := [Called h1 [ep1, ep2], Called h2 [ep1, ep2]]\<rparr>"
    using C2_updateCache [of "''svc''" "[]" "[ep1, ep2]" world0]
    by (simp add: ex_defs cacheKey_def registered_def)
  show "updateCache ''svc'' [] [ep1, ep2] (updateCache ''svc'' [] [ep1, ep2] world0)
     = updateCache ''svc'' [] [ep1, ep2] world0"
    using C2_updateCache [of "''svc''" "[]" "[ep1, ep2]" world0] by (rule conjunct2)
  show "updateCache ''svc'' [] [ep1] world0 = world0"
    using C2_updateCache [of "''svc''" "[]" "[ep1]" world0]
    by (simp add: ex_defs cacheKey_def registered_def)
qed

text \<open>
  Claim C2, as the specification states it, fails when the entry and \<open>S\<close> hold the
  same endpoints and differ in their repetitions: the entry \<open>[ep1, ep1]\<close> is set-equal
  to \<open>[ep1]\<close>, and the update stores \<open>[ep1]\<close> and calls both handlers.
\<close>

theorem C2_set_equal_update_counterexample:
  "set [ep1, ep1] = set [ep1]
   \<and> cache (world0\<lparr>cache := [''svc'' \<mapsto> [ep1, ep1]]\<rparr>) (cacheKey ''svc'' []) = Some [ep1, ep1]
   \<and> updateCache ''svc'' [] [ep1] (world0\<lparr>cache := [''svc'' \<mapsto> [ep1, ep1]]\<rparr>)
     = world0\<lparr>cache := [''svc'' \<mapsto> [ep1]], trace := [Called h1 [ep1], Called h2 [ep1]]\<rparr>"
  by (simp add: ex_defs updateCache_def cacheKey_def Addresses_Equal_def notify_def emit_def
      Let_def)

section \<open>Subscriptions\<close>

lemma Unsubscribe_loop_eq:
  "Unsubscribe_loop a handler =
     takeWhile (\<lambda>h. Pointer h \<noteq> Pointer handler) a
     @ tl (dropWhile (\<lambda>h. Pointer h \<noteq> Pointer handler) a)"
  by (induction a) auto





section \<open>Resolution\<close>

lemma query_Inl:
  "consul name [] (immediate dc) = Inl e \<Longrightarrow>
   query consul name dc w = (Inl (RegistryError e), emit (Lookup name [] (immediate dc)) w)"
  by (simp add: query_def service_eq immediate_def)

lemma query_Inr:
  "consul name [] (immediate dc) = Inr (ses, qm) \<Longrightarrow>
   query consul name dc w =
     (if filter healthy ses = []
      then (Inl (ServiceNotFound name (consulAddr w)), emit (Lookup name [] (immediate dc)) w)
      else (Inr (map endpoint (filter healthy ses)),
            emit (Go_monitor name dc (LastIndex qm))
              (updateCache name dc (map endpoint (filter healthy ses))
                 (emit (Lookup name [] (immediate dc)) w))))"
  by (simp add: query_def service_eq immediate_def parseConsulServiceEntries_eq Let_def emit_def)



lemma query_trace:
  "\<exists>evs. trace (snd (query consul name dc w)) = trace w @ Lookup name [] (immediate dc) # evs"
  by (cases "consul name [] (immediate dc)")
     (auto simp: query_Inl query_Inr emit_def updateCache_eq)

lemma srv_empty_like_miss:
  assumes "cache w (cacheKey name dc) = Some []"
  shows "fst (srv consul name dc w) = fst (srv consul name dc (invalidateCache name dc w))"
    and "trace (snd (srv consul name dc w)) = trace (snd (srv consul name dc (invalidateCache name dc w)))"
    and "fst (srv consul name dc w) = Inr srvs \<Longrightarrow>
         snd (srv consul name dc w) = snd (srv consul name dc (invalidateCache name dc w))"
  using assms
  by (cases "consul name [] (immediate dc)";
      auto simp: srv_def invalidateCache_def query_Inl query_Inr emit_def updateCache_eq
        Addresses_Equal_iff registered_def split: if_splits)+






text \<open>
  Claim C4. When the key holds the empty list, or nothing, \<open>srv\<close> is \<open>query\<close>: it
  issues the immediate lookup (the first effect of \<open>query\<close>). With the empty entry its
  result and its effects are those it has in the state where the entry is removed. A
  non-empty entry is returned as it is, with no effect at all. \<open>Services\<close> is \<open>srv\<close> at
  the name and the datacenter that \<open>serviceName\<close> returns.
\<close>

theorem C4_empty_entry_is_a_miss:
  "(cache w (cacheKey name dc) = Some [] \<or> cache w (cacheKey name dc) = None \<longrightarrow>
      srv consul name dc w = query consul name dc w)
   \<and> (cache w (cacheKey name dc) = Some srvs \<and> srvs \<noteq> [] \<longrightarrow>
      srv consul name dc w = (Inr srvs, w))
   \<and> (\<exists>evs. trace (snd (query consul name dc w)) = trace w @ Lookup name [] (immediate dc) # evs)
   \<and> (cache w (cacheKey name dc) = Some [] \<longrightarrow>
      fst (srv consul name dc w) = fst (srv consul name dc (invalidateCache name dc w))
      \<and> trace (snd (srv consul name dc w))
        = trace (snd (srv consul name dc (invalidateCache name dc w))))
   \<and> (serviceName fqdn (domain w) = Some (name, dc) \<longrightarrow>
      Services consul fqdn w =
        (case srv consul name dc w of
           (Inl err, w') \<Rightarrow> (Inl (Failed err), w')
         | (Inr srvs, w') \<Rightarrow> (Inr srvs, w')))"
proof (intro conjI impI)
  assume "cache w (cacheKey name dc) = Some [] \<or> cache w (cacheKey name dc) = None"
  then show "srv consul name dc w = query consul name dc w"
    by (auto simp: srv_def)
next
  assume "cache w (cacheKey name dc) = Some srvs \<and> srvs \<noteq> []"
  then show "srv consul name dc w = (Inr srvs, w)"
    by (simp add: srv_def)
next
  show "\<exists>evs. trace (snd (query consul name dc w)) = trace w @ Lookup name [] (immediate dc) # evs"
    by (rule query_trace)
next
  assume "cache w (cacheKey name dc) = Some []"
  then show "fst (srv consul name dc w) = fst (srv consul name dc (invalidateCache name dc w))"
    and "trace (snd (srv consul name dc w))
        = trace (snd (srv consul name dc (invalidateCache name dc w)))"
    by (rule srv_empty_like_miss)+
next
  assume "serviceName fqdn (domain w) = Some (name, dc)"
  then show "Services consul fqdn w =
        (case srv consul name dc w of
           (Inl err, w') \<Rightarrow> (Inl (Failed err), w')
         | (Inr srvs, w') \<Rightarrow> (Inr srvs, w'))"
    by (simp add: Services_def)
qed

lemma serviceName_svc_service_sd: "serviceName ''svc.service.sd'' ''sd'' = Some (''svc'', [])"
  by code_simp


theorem C4_empty_entry_is_a_miss_witness:
  "srv consul_up ''svc'' [] (world0\<lparr>cache := [''svc'' \<mapsto> []]\<rparr>)
     = query consul_up ''svc'' [] (world0\<lparr>cache := [''svc'' \<mapsto> []]\<rparr>)
   \<and> srv consul_up ''svc'' [] world0 = (Inr [ep1], world0)
   \<and> Services consul_up ''svc.service.sd'' world0 = (Inr [ep1], world0)"
proof (intro conjI)
  show "srv consul_up ''svc'' [] (world0\<lparr>cache := [''svc'' \<mapsto> []]\<rparr>)
     = query consul_up ''svc'' [] (world0\<lparr>cache := [''svc'' \<mapsto> []]\<rparr>)"
    using C4_empty_entry_is_a_miss [where name = "''svc''" and dc = "[]"
      and w = "world0\<lparr>cache := [''svc'' \<mapsto> []]\<rparr>" and consul = consul_up]
    by (simp add: cacheKey_def)
  show s: "srv consul_up ''svc'' [] world0 = (Inr [ep1], world0)"
    using C4_empty_entry_is_a_miss [where name = "''svc''" and dc = "[]"
      and w = world0 and consul = consul_up and srvs = "[ep1]"]
    by (simp add: cacheKey_def world0_def)
  show "Services consul_up ''svc.service.sd'' world0 = (Inr [ep1], world0)"
    using C4_empty_entry_is_a_miss [where name = "''svc''" and dc = "[]"
      and w = world0 and consul = consul_up and fqdn = "''svc.service.sd''"]
      serviceName_svc_service_sd
    by (simp add: s) (simp add: world0_def)
qed





section \<open>The watcher\<close>

lemma monitor_loop_Inl:
  "consul name [] (blocking wi dc) = Inl e \<Longrightarrow>
   monitor_loop name dc (consul # rest) wi tries w =
     (if tries + 1 = queryRetries
      then (GivingUp, invalidateCache name dc (emit (Lookup name [] (blocking wi dc)) w))
      else monitor_loop name dc rest wi (tries + 1)
             (emit (Sleep 30) (emit (Lookup name [] (blocking wi dc)) w)))"
  by (simp add: service_eq blocking_def waitTimeMinutes_def queryTimeoutSeconds_def)

lemma monitor_loop_Inr:
  "consul name [] (blocking wi dc) = Inr (ses, qm) \<Longrightarrow>
   monitor_loop name dc (consul # rest) wi tries w =
     monitor_loop name dc rest (LastIndex qm) 0
       (updateCache name dc (map endpoint (filter healthy ses))
          (emit (Lookup name [] (blocking wi dc)) w))"
  by (simp add: service_eq blocking_def waitTimeMinutes_def parseConsulServiceEntries_eq)

declare monitor_loop.simps(2) [simp del]

lemma monitor_loop_failures:
  assumes "\<forall>c \<in> set fails. \<exists>e. c name [] (blocking wi dc) = Inl e"
    and "tries + int (length fails) < queryRetries"
  shows "monitor_loop name dc (fails @ rest) wi tries w =
     monitor_loop name dc rest wi (tries + int (length fails))
       (w\<lparr>trace := trace w
            @ concat (replicate (length fails) [Lookup name [] (blocking wi dc), Sleep 30])\<rparr>)"
  using assms
proof (induction fails arbitrary: tries w)
  case Nil
  then show ?case by simp
next
  case (Cons c fails)
  from Cons.prems(1) obtain e where e: "c name [] (blocking wi dc) = Inl e" by auto
  have ne: "tries + 1 \<noteq> queryRetries" using Cons.prems(2) by simp
  have "monitor_loop name dc ((c # fails) @ rest) wi tries w =
        monitor_loop name dc (fails @ rest) wi (tries + 1)
          (emit (Sleep 30) (emit (Lookup name [] (blocking wi dc)) w))"
    using monitor_loop_Inl [where consul = c and name = name and wi = wi and dc = dc,
        OF e, of "fails @ rest" tries w] ne by simp
  also have "\<dots> = monitor_loop name dc rest wi (tries + 1 + int (length fails))
       ((emit (Sleep 30) (emit (Lookup name [] (blocking wi dc)) w))
          \<lparr>trace := trace (emit (Sleep 30) (emit (Lookup name [] (blocking wi dc)) w))
            @ concat (replicate (length fails) [Lookup name [] (blocking wi dc), Sleep 30])\<rparr>)"
    using Cons.prems by (intro Cons.IH) auto
  finally show ?case
    by (simp add: emit_def ac_simps)
qed

lemma monitor_loop_gives_up:
  assumes "\<forall>c \<in> set fails. \<exists>e. c name [] (blocking wi dc) = Inl e"
    and "tries + int (length fails) = queryRetries" and "fails \<noteq> []"
  shows "monitor_loop name dc (fails @ rest) wi tries w =
     (GivingUp,
      w\<lparr>cache := (cache w)(cacheKey name dc := None),
         trace := trace w
            @ concat (replicate (length fails - 1) [Lookup name [] (blocking wi dc), Sleep 30])
            @ [Lookup name [] (blocking wi dc)]\<rparr>)"
proof -
  from assms(3) obtain init c where f: "fails = init @ [c]"
    by (metis rev_exhaust)
  from assms(1) f obtain e where e: "c name [] (blocking wi dc) = Inl e" by auto
  have i: "\<forall>c \<in> set init. \<exists>e. c name [] (blocking wi dc) = Inl e" using assms(1) f by auto
  have l: "tries + int (length init) < queryRetries" using assms(2) f by simp
  have t: "tries + int (length init) + 1 = queryRetries" using assms(2) f by simp
  have "monitor_loop name dc (fails @ rest) wi tries w =
        monitor_loop name dc (init @ (c # rest)) wi tries w"
    using f by simp
  also have "\<dots> = monitor_loop name dc (c # rest) wi (tries + int (length init))
       (w\<lparr>trace := trace w
            @ concat (replicate (length init) [Lookup name [] (blocking wi dc), Sleep 30])\<rparr>)"
    by (rule monitor_loop_failures [OF i l])
  also have "\<dots> = (GivingUp, invalidateCache name dc (emit (Lookup name [] (blocking wi dc))
       (w\<lparr>trace := trace w
            @ concat (replicate (length init) [Lookup name [] (blocking wi dc), Sleep 30])\<rparr>)))"
    using monitor_loop_Inl [where consul = c and name = name and wi = wi and dc = dc, OF e] t
    by simp
  finally show ?thesis
    using f by (simp add: invalidateCache_def emit_def)
qed

text \<open>
  Claim C1. A run of failed blocking lookups that keeps the failure count below 10
  leaves the watcher running with the count raised by the length of the run and the
  wait index unchanged: every lookup of the run asks with that same index and is
  followed by a sleep of 30 seconds. A run of failures that brings the count to 10
  ends the watcher: the entry of the key is removed from the cache, nothing sleeps
  after the last lookup, and the registry states that follow are not looked at. A
  successful lookup sets the count to 0, takes the returned index as the wait index
  and passes the addresses of the healthy entries to \<open>updateCache\<close>. \<open>monitor\<close> starts
  the loop with the count 0 and the start index.
\<close>

theorem C1_watcher:
  "((\<forall>c \<in> set fails. \<exists>e. c name [] (blocking wi dc) = Inl e)
      \<and> tries + int (length fails) < 10 \<longrightarrow>
    monitor_loop name dc (fails @ rest) wi tries w =
      monitor_loop name dc rest wi (tries + int (length fails))
        (w\<lparr>trace := trace w
             @ concat (replicate (length fails) [Lookup name [] (blocking wi dc), Sleep 30])\<rparr>))
   \<and> ((\<forall>c \<in> set fails. \<exists>e. c name [] (blocking wi dc) = Inl e)
      \<and> fails \<noteq> [] \<and> tries + int (length fails) = 10 \<longrightarrow>
    monitor_loop name dc (fails @ rest) wi tries w =
      (GivingUp,
       w\<lparr>cache := (cache w)(cacheKey name dc := None),
          trace := trace w
             @ concat (replicate (length fails - 1) [Lookup name [] (blocking wi dc), Sleep 30])
             @ [Lookup name [] (blocking wi dc)]\<rparr>))
   \<and> (consul name [] (blocking wi dc) = Inr (ses, qm) \<longrightarrow>
    monitor_loop name dc (consul # rest) wi tries w =
      monitor_loop name dc rest (LastIndex qm) 0
        (updateCache name dc (parseConsulServiceEntries (filter healthy ses))
           (emit (Lookup name [] (blocking wi dc)) w)))
   \<and> monitor name dc startIndex consuls w = monitor_loop name dc consuls startIndex 0 w"
proof (intro conjI impI)
  assume "(\<forall>c \<in> set fails. \<exists>e. c name [] (blocking wi dc) = Inl e)
      \<and> tries + int (length fails) < 10"
  then show "monitor_loop name dc (fails @ rest) wi tries w =
      monitor_loop name dc rest wi (tries + int (length fails))
        (w\<lparr>trace := trace w
             @ concat (replicate (length fails) [Lookup name [] (blocking wi dc), Sleep 30])\<rparr>)"
    by (intro monitor_loop_failures) (simp_all add: queryRetries_def)
next
  assume "(\<forall>c \<in> set fails. \<exists>e. c name [] (blocking wi dc) = Inl e)
      \<and> fails \<noteq> [] \<and> tries + int (length fails) = 10"
  then show "monitor_loop name dc (fails @ rest) wi tries w =
      (GivingUp,
       w\<lparr>cache := (cache w)(cacheKey name dc := None),
          trace := trace w
             @ concat (replicate (length fails - 1) [Lookup name [] (blocking wi dc), Sleep 30])
             @ [Lookup name [] (blocking wi dc)]\<rparr>)"
    by (intro monitor_loop_gives_up) (simp_all add: queryRetries_def)
next
  assume "consul name [] (blocking wi dc) = Inr (ses, qm)"
  then show "monitor_loop name dc (consul # rest) wi tries w =
      monitor_loop name dc rest (LastIndex qm) 0
        (updateCache name dc (parseConsulServiceEntries (filter healthy ses))
           (emit (Lookup name [] (blocking wi dc)) w))"
    by (simp add: monitor_loop_Inr parseConsulServiceEntries_eq)
next
  show "monitor name dc startIndex consuls w = monitor_loop name dc consuls startIndex 0 w"
    by (simp add: monitor_def)
qed

theorem C1_watcher_witness:
  "monitor_loop ''svc'' [] (replicate 10 consul_down) 5 0 world0 =
     (GivingUp,
      world0\<lparr>cache := Map.empty,
             trace := concat (replicate 9 [Lookup ''svc'' [] (blocking 5 []), Sleep 30])
                      @ [Lookup ''svc'' [] (blocking 5 [])]\<rparr>)
   \<and> monitor_loop ''svc'' [] (replicate 3 consul_down @ [consul_up]) 5 0 world0 =
      monitor_loop ''svc'' [] [consul_up] 5 3
        (world0\<lparr>trace := concat (replicate 3 [Lookup ''svc'' [] (blocking 5 []), Sleep 30])\<rparr>)
   \<and> monitor_loop ''svc'' [] [consul_up] 5 3 world0 =
      (Watching 6 0,
       world0\<lparr>cache := [''svc'' \<mapsto> [ep1, ep2]],
              trace := [Lookup ''svc'' [] (blocking 5 []),
                        Called h1 [ep1, ep2], Called h2 [ep1, ep2]]\<rparr>)"
proof (intro conjI)
  show "monitor_loop ''svc'' [] (replicate 10 consul_down) 5 0 world0 =
     (GivingUp,
      world0\<lparr>cache := Map.empty,
             trace := concat (replicate 9 [Lookup ''svc'' [] (blocking 5 []), Sleep 30])
                      @ [Lookup ''svc'' [] (blocking 5 [])]\<rparr>)"
    using C1_watcher [where fails = "replicate 10 consul_down" and name = "''svc''" and wi = 5
      and dc = "[]" and tries = 0 and rest = "[]" and w = world0]
    by (simp add: consul_down_def world0_def cacheKey_def)
  show "monitor_loop ''svc'' [] (replicate 3 consul_down @ [consul_up]) 5 0 world0 =
      monitor_loop ''svc'' [] [consul_up] 5 3
        (world0\<lparr>trace := concat (replicate 3 [Lookup ''svc'' [] (blocking 5 []), Sleep 30])\<rparr>)"
    using C1_watcher [where fails = "replicate 3 consul_down" and name = "''svc''" and wi = 5
      and dc = "[]" and tries = 0 and rest = "[consul_up]" and w = world0]
    by (simp add: consul_down_def world0_def)
  show "monitor_loop ''svc'' [] [consul_up] 5 3 world0 =
      (Watching 6 0,
       world0\<lparr>cache := [''svc'' \<mapsto> [ep1, ep2]],
              trace := [Lookup ''svc'' [] (blocking 5 []),
                        Called h1 [ep1, ep2], Called h2 [ep1, ep2]]\<rparr>)"
    using C1_watcher [where consul = consul_up and name = "''svc''" and wi = 5
      and dc = "[]" and tries = 3 and rest = "[]" and w = world0
      and ses = "[se1, se2, se3]" and qm = "\<lparr>LastIndex = 6\<rparr>" and fails = "[]"
      and startIndex = 5 and consuls = "[]"]
    by (simp add: ex_defs healthy_def parseConsulServiceEntries_def updateCache_def
        cacheKey_def Addresses_Equal_def Address_Equal_def notify_def emit_def Let_def)
qed

text \<open>
  Claim C5. An immediate lookup that the registry answers with no healthy entry makes
  \<open>query\<close> fail with the "service not found" error: the cache is as before and the
  only effect is the lookup itself, so no watcher is started. A blocking lookup of the
  watcher that is answered with no healthy entry leaves the watcher running with the
  returned index, and the key then holds the empty list.
\<close>

theorem C5_not_found_and_empty_watch:
  "(consul name [] (immediate dc) = Inr (ses, qm) \<and> filter healthy ses = [] \<longrightarrow>
      query consul name dc w =
        (Inl (ServiceNotFound name (consulAddr w)), emit (Lookup name [] (immediate dc)) w)
      \<and> cache (snd (query consul name dc w)) = cache w
      \<and> trace (snd (query consul name dc w)) = trace w @ [Lookup name [] (immediate dc)])
   \<and> (consul name [] (blocking wi dc) = Inr (ses, qm) \<and> filter healthy ses = [] \<longrightarrow>
      fst (monitor_loop name dc [consul] wi tries w) = Watching (LastIndex qm) 0
      \<and> cache (snd (monitor_loop name dc [consul] wi tries w)) (cacheKey name dc) = Some [])"
proof (intro conjI impI)
  assume a: "consul name [] (immediate dc) = Inr (ses, qm) \<and> filter healthy ses = []"
  then show q: "query consul name dc w =
        (Inl (ServiceNotFound name (consulAddr w)), emit (Lookup name [] (immediate dc)) w)"
    by (simp add: query_Inr)
  show "cache (snd (query consul name dc w)) = cache w"
    by (simp add: q emit_def)
  show "trace (snd (query consul name dc w)) = trace w @ [Lookup name [] (immediate dc)]"
    by (simp add: q emit_def)
next
  assume a: "consul name [] (blocking wi dc) = Inr (ses, qm) \<and> filter healthy ses = []"
  then have m: "monitor_loop name dc [consul] wi tries w =
      (Watching (LastIndex qm) 0,
       updateCache name dc [] (emit (Lookup name [] (blocking wi dc)) w))"
    by (simp add: monitor_loop_Inr)
  show "fst (monitor_loop name dc [consul] wi tries w) = Watching (LastIndex qm) 0"
    by (simp add: m)
  show "cache (snd (monitor_loop name dc [consul] wi tries w)) (cacheKey name dc) = Some []"
    by (simp add: m cache_updateCache_Nil)
qed

theorem C5_not_found_and_empty_watch_witness:
  "query consul_unhealthy ''svc'' [] world0 =
     (Inl (ServiceNotFound ''svc'' ''127.0.0.1:8500''),
      world0\<lparr>trace := [Lookup ''svc'' [] (immediate [])]\<rparr>)
   \<and> cache (snd (monitor_loop ''svc'' [] [consul_unhealthy] 5 0 world0)) ''svc'' = Some []"
proof (intro conjI)
  show "query consul_unhealthy ''svc'' [] world0 =
     (Inl (ServiceNotFound ''svc'' ''127.0.0.1:8500''),
      world0\<lparr>trace := [Lookup ''svc'' [] (immediate [])]\<rparr>)"
    using C5_not_found_and_empty_watch [where consul = consul_unhealthy and name = "''svc''"
      and dc = "[]" and ses = "[se3]" and qm = "\<lparr>LastIndex = 7\<rparr>" and w = world0]
    by (simp add: consul_unhealthy_def se3_def healthy_def world0_def emit_def)
  show "cache (snd (monitor_loop ''svc'' [] [consul_unhealthy] 5 0 world0)) ''svc'' = Some []"
    using C5_not_found_and_empty_watch [where consul = consul_unhealthy and name = "''svc''"
      and dc = "[]" and ses = "[se3]" and qm = "\<lparr>LastIndex = 7\<rparr>" and w = world0
      and wi = 5 and tries = 0]
    by (simp add: consul_unhealthy_def se3_def healthy_def cacheKey_def)
qed

section \<open>Name parsing\<close>

text \<open>
  The equation of the star calls itself on the right: it is taken out of the
  simplifier's rules and unfolded by hand.
\<close>

lemmas matches_Star = matches.simps(8)

declare matches.simps(8) [simp del]


lemma span_step:
  "span P t p = (if p < length t \<and> P (t ! p) then Suc (span P t (Suc p)) else 0)"
proof (cases "p < length t")
  case True
  then have "drop p t = t ! p # drop (Suc p) t" by (simp add: Cons_nth_drop_Suc)
  then show ?thesis using True by (simp add: span_def)
next
  case False
  then show ?thesis by (simp add: span_def)
qed



lemma star_class:
  assumes r: "\<And>p c. matches t r p c = (if p < length t \<and> P (t ! p) then [(p + 1, c)] else [])"
  shows "matches t (Star r) p c = map (\<lambda>q. (q, c)) (rev [p ..< Suc (p + span P t p)])"
proof (induction "length t - p" arbitrary: p)
  case 0
  then have "\<not> p < length t" by simp
  then show ?case by (simp add: r span_step [of P t p] matches_Star)
next
  case (Suc k)
  then have lt: "p < length t" by simp
  show ?case
  proof (cases "P (t ! p)")
    case True
    have k: "k = length t - Suc p" using Suc(2) by simp
    have "matches t (Star r) p c = matches t (Star r) (Suc p) c @ [(p, c)]"
      using lt True by (simp add: r matches_Star)
    also have "\<dots> = map (\<lambda>q. (q, c)) (rev [Suc p ..< Suc (Suc p + span P t (Suc p))]) @ [(p, c)]"
      using Suc(1) [OF k] by simp
    also have "\<dots> = map (\<lambda>q. (q, c)) (rev [p ..< Suc (p + span P t p)])"
      using lt True by (simp add: span_step [of P t p] upt_conv_Cons)
    finally show ?thesis .
  next
    case False
    then show ?thesis by (simp add: r span_step [of P t p] matches_Star)
  qed
qed

lemma star_NonSpace:
  "matches t (Star NonSpace) p c =
     map (\<lambda>q. (q, c)) (rev [p ..< Suc (p + span (\<lambda>x. \<not> is_space x) t p)])"
  by (rule star_class) simp


lemma group_star_NonSpace:
  "matches t (Group n (Star NonSpace)) p c =
     map (\<lambda>q. (q, c(n \<mapsto> (p, q)))) (rev [p ..< Suc (p + span (\<lambda>x. \<not> is_space x) t p)])"
  by (simp add: star_NonSpace del: upt_Suc)

















































section \<open>Rewriting a URL\<close>



















end
